theory Spec2Isabelle
  imports Complex_Main
begin

section \<open>JavaScript numbers\<close>

text \<open>
  The engine computes with JavaScript numbers. The model keeps every finite value as an
  exact rational (rounding is not modelled) and keeps the three non-finite values, because
  a division by zero does not raise in JavaScript: it yields an infinity or \<open>NaN\<close>, which
  then flows on through the arithmetic. The sign of zero is not modelled (zero is \<open>+0\<close>),
  so a non-zero number divided by zero is the infinity with the numerator's sign; no
  theorem below depends on that sign.
\<close>

datatype jsnum = Fin rat | PInf | NInf | NaN

instantiation jsnum :: "{plus, uminus, times, divide, ord}"
begin

fun uminus_jsnum :: "jsnum \<Rightarrow> jsnum" where
  "uminus_jsnum (Fin a) = Fin (- a)"
| "uminus_jsnum PInf = NInf"
| "uminus_jsnum NInf = PInf"
| "uminus_jsnum NaN = NaN"

fun plus_jsnum :: "jsnum \<Rightarrow> jsnum \<Rightarrow> jsnum" where
  "plus_jsnum NaN y = NaN"
| "plus_jsnum x NaN = NaN"
| "plus_jsnum (Fin a) (Fin b) = Fin (a + b)"
| "plus_jsnum PInf NInf = NaN"
| "plus_jsnum NInf PInf = NaN"
| "plus_jsnum PInf y = PInf"
| "plus_jsnum NInf y = NInf"
| "plus_jsnum (Fin a) y = y"

fun times_jsnum :: "jsnum \<Rightarrow> jsnum \<Rightarrow> jsnum" where
  "times_jsnum NaN y = NaN"
| "times_jsnum x NaN = NaN"
| "times_jsnum (Fin a) (Fin b) = Fin (a * b)"
| "times_jsnum (Fin a) PInf = (if a = 0 then NaN else if 0 < a then PInf else NInf)"
| "times_jsnum (Fin a) NInf = (if a = 0 then NaN else if 0 < a then NInf else PInf)"
| "times_jsnum PInf (Fin b) = (if b = 0 then NaN else if 0 < b then PInf else NInf)"
| "times_jsnum NInf (Fin b) = (if b = 0 then NaN else if 0 < b then NInf else PInf)"
| "times_jsnum PInf PInf = PInf"
| "times_jsnum PInf NInf = NInf"
| "times_jsnum NInf PInf = NInf"
| "times_jsnum NInf NInf = PInf"

fun divide_jsnum :: "jsnum \<Rightarrow> jsnum \<Rightarrow> jsnum" where
  "divide_jsnum NaN y = NaN"
| "divide_jsnum x NaN = NaN"
| "divide_jsnum (Fin a) (Fin b) =
     (if b = 0 then (if a = 0 then NaN else if 0 < a then PInf else NInf)
      else Fin (a / b))"
| "divide_jsnum (Fin a) y = Fin 0"
| "divide_jsnum PInf (Fin b) = (if 0 \<le> b then PInf else NInf)"
| "divide_jsnum NInf (Fin b) = (if 0 \<le> b then NInf else PInf)"
| "divide_jsnum x y = NaN"

fun less_jsnum :: "jsnum \<Rightarrow> jsnum \<Rightarrow> bool" where
  "less_jsnum NaN y = False"
| "less_jsnum x NaN = False"
| "less_jsnum (Fin a) (Fin b) = (a < b)"
| "less_jsnum x NInf = False"
| "less_jsnum PInf y = False"
| "less_jsnum x y = True"

fun less_eq_jsnum :: "jsnum \<Rightarrow> jsnum \<Rightarrow> bool" where
  "less_eq_jsnum NaN y = False"
| "less_eq_jsnum x NaN = False"
| "less_eq_jsnum (Fin a) (Fin b) = (a \<le> b)"
| "less_eq_jsnum NInf y = True"
| "less_eq_jsnum x PInf = True"
| "less_eq_jsnum x y = False"

instance ..

end

instantiation jsnum :: "{minus, inverse}"
begin

definition minus_jsnum :: "jsnum \<Rightarrow> jsnum \<Rightarrow> jsnum" where
  "minus_jsnum x y = x + (- y)"

definition inverse_jsnum :: "jsnum \<Rightarrow> jsnum" where
  "inverse_jsnum x = divide (Fin 1) x"

instance ..

end

text \<open>\<open>Math.max\<close> and \<open>Math.min\<close>: \<open>NaN\<close> as soon as one argument is \<open>NaN\<close>.\<close>

definition Math_max :: "jsnum \<Rightarrow> jsnum \<Rightarrow> jsnum" where
  "Math_max x y = (if x = NaN \<or> y = NaN then NaN else if x \<le> y then y else x)"

definition Math_min :: "jsnum \<Rightarrow> jsnum \<Rightarrow> jsnum" where
  "Math_min x y = (if x = NaN \<or> y = NaN then NaN else if x \<le> y then x else y)"

text \<open>Strict equality \<open>===\<close> on numbers: \<open>NaN\<close> equals nothing, not even itself.\<close>

definition strict_eq :: "jsnum \<Rightarrow> jsnum \<Rightarrow> bool" where
  "strict_eq x y = (x \<noteq> NaN \<and> y \<noteq> NaN \<and> x = y)"


section \<open>The timing helpers\<close>

text \<open>
  The pure functions of the helpers module, in the order of the source.
\<close>

text \<open>
  The last schedule that the controller tracks (the object literal it stores in
  \<open>lastScheduledStretcherDelayReset\<close>).
\<close>

record StretchInfo =
  newSpeedStartInputTime :: jsnum
  startTime :: jsnum
  startValue :: jsnum
  endTime :: jsnum
  endValue :: jsnum

definition getRealtimeMargin :: "jsnum \<Rightarrow> jsnum \<Rightarrow> jsnum" where
  "getRealtimeMargin margin speed = margin / speed"

definition getNewLookaheadDelay :: "jsnum \<Rightarrow> jsnum \<Rightarrow> jsnum \<Rightarrow> jsnum" where
  "getNewLookaheadDelay intrinsicTimeMargin sounded silence =
     intrinsicTimeMargin / Math_max sounded silence"

definition getDelayFromInputToStretcherOutput :: "jsnum \<Rightarrow> jsnum \<Rightarrow> jsnum" where
  "getDelayFromInputToStretcherOutput lookaheadNodeDelay stretcherNodeDelay =
     lookaheadNodeDelay + stretcherNodeDelay"

definition getNewSnippetDuration :: "jsnum \<Rightarrow> jsnum \<Rightarrow> jsnum \<Rightarrow> jsnum" where
  "getNewSnippetDuration originalRealtimeDuration originalSpeed newSpeed =
     (let videoSpeedSnippetDuration = originalRealtimeDuration * originalSpeed
      in videoSpeedSnippetDuration / newSpeed)"

definition getStretcherDelayChange :: "jsnum \<Rightarrow> jsnum \<Rightarrow> jsnum \<Rightarrow> jsnum" where
  "getStretcherDelayChange snippetOriginalRealtimeDuration originalSpeed newSpeed =
     (let snippetNewDuration =
            getNewSnippetDuration snippetOriginalRealtimeDuration originalSpeed newSpeed;
          delayChange = snippetNewDuration - snippetOriginalRealtimeDuration
      in delayChange)"

definition getStretcherSoundedDelay :: "jsnum \<Rightarrow> jsnum \<Rightarrow> jsnum \<Rightarrow> jsnum" where
  "getStretcherSoundedDelay intrinsicTimeMarginBefore sounded silence =
     (let realTimeMarginBefore = intrinsicTimeMarginBefore / silence;
          delayChange = getStretcherDelayChange realTimeMarginBefore silence sounded
      in Fin 0 + delayChange)"

definition getStretchSpeedChangeMultiplier :: "StretchInfo \<Rightarrow> jsnum" where
  "getStretchSpeedChangeMultiplier stretch =
     ((endTime stretch - startTime stretch) + (startValue stretch - endValue stretch))
       / (endTime stretch - startTime stretch)"

definition getStretcherDelayForInputMoment :: "jsnum \<Rightarrow> jsnum \<Rightarrow> StretchInfo \<Rightarrow> jsnum" where
  "getStretcherDelayForInputMoment momentTime lookaheadDelay lastScheduledStretcherDelayReset =
     (let stretch = lastScheduledStretcherDelayReset;
          stretchEndTotalDelay =
            getDelayFromInputToStretcherOutput lookaheadDelay (endValue stretch)
      in if momentTime + stretchEndTotalDelay \<ge> endTime stretch
         then momentTime + stretchEndTotalDelay
         else
           (let originalTargetMomentOffsetRelativeToStretchStart =
                  momentTime
                    + getDelayFromInputToStretcherOutput lookaheadDelay (startValue stretch)
                    - startTime stretch;
                playbackSpeedupDuringStretch = getStretchSpeedChangeMultiplier stretch;
                finalTargetMomentOffsetRelativeToStretchStart =
                  originalTargetMomentOffsetRelativeToStretchStart
                    / playbackSpeedupDuringStretch
            in startTime stretch + finalTargetMomentOffsetRelativeToStretchStart))"

definition smallestNonNormalAbove1 :: jsnum where
  "smallestNonNormalAbove1 = Fin 1.002"

definition biggestNonNormalBelow1 :: jsnum where
  "biggestNonNormalBelow1 = Fin 1 - (smallestNonNormalAbove1 - Fin 1)"

definition transformSpeed :: "jsnum \<Rightarrow> jsnum" where
  "transformSpeed speed =
     (if biggestNonNormalBelow1 < speed \<and> speed < smallestNonNormalAbove1
      then (if smallestNonNormalAbove1 - speed < speed - biggestNonNormalBelow1
            then biggestNonNormalBelow1
            else smallestNonNormalAbove1)
      else speed)"


section \<open>The controller\<close>

text \<open>
  Modelled from the spec: \<open>defaultSettings.json\<close>, which gives the settings object its
  keys, is not among the sources. The keys are the four that the controller reads and the
  \<open>durationThreshold\<close> of the specification's data model. A settings object is the
  function from its keys to their values, so that \<open>oldSettings[speedSettingName]\<close> is an
  application; a \<open>Partial<Settings>\<close> holds only some of the keys.
\<close>

datatype SettingName = soundedSpeed | silenceSpeed | marginBefore | volumeThreshold | durationThreshold

type_synonym Settings = "SettingName \<Rightarrow> jsnum"

type_synonym PartialSettings = "SettingName \<rightharpoonup> jsnum"

text \<open>The object literal \<open>{soundedSpeed: a, silenceSpeed: b, ...}\<close>.\<close>

fun settingsObject :: "jsnum \<Rightarrow> jsnum \<Rightarrow> jsnum \<Rightarrow> jsnum \<Rightarrow> jsnum \<Rightarrow> Settings" where
  "settingsObject a b m v d soundedSpeed = a"
| "settingsObject a b m v d silenceSpeed = b"
| "settingsObject a b m v d marginBefore = m"
| "settingsObject a b m v d volumeThreshold = v"
| "settingsObject a b m v d durationThreshold = d"

text \<open>The object spread \<open>{...base, ...changed}\<close>: a key of \<open>changed\<close> overrides the base.\<close>

definition spread :: "Settings \<Rightarrow> PartialSettings \<Rightarrow> Settings" where
  "spread base changed = (\<lambda>key. case changed key of None \<Rightarrow> base key | Some v \<Rightarrow> v)"

text \<open>
  \<open>PitchPreservingStretcherNode\<close> is not among the sources: the model records the calls
  that the controller makes on \<open>this._stretcher\<close>, oldest first.
\<close>

datatype StretcherCall =
    Stretch jsnum jsnum jsnum jsnum
  | InterruptLastScheduledStretch jsnum jsnum
  | SetDelay jsnum
  | Destroy

text \<open>
  What \<open>init\<close> creates: the two parameters of the silence detector node, the lookahead
  node's \<open>delayTime.value\<close>, the stretcher, the detector's message port, and the variable
  \<open>lastScheduledStretcherDelayReset\<close> of the message handler's closure (\<open>null\<close> is \<open>None\<close>).
  The parameters and the playback rate are plain stores: what is written is what is read.
  The wiring of the audio graph and the logging of development builds are left out; neither
  writes anything that is modelled here.
\<close>

record Nodes =
  volumeThresholdParam :: jsnum
  durationThresholdParam :: jsnum
  lookaheadDelayTime :: jsnum
  stretcherCalls :: "StretcherCall list"
  portOpen :: bool
  lastScheduledStretcherDelayReset :: "StretchInfo option"

datatype InitPromise = Undefined | Pending | Resolved

text \<open>
  The instance: \<open>this.element.playbackRate\<close>, \<open>this.settings\<close>, \<open>this._initPromise\<close> and
  the nodes, \<open>None\<close> as long as \<open>init\<close> has not created them.
\<close>

record Controller =
  playbackRate :: jsnum
  settings :: Settings
  initPromise :: InitPromise
  nodes :: "Nodes option"

text \<open>Reading a property of \<open>undefined\<close> or \<open>null\<close> throws.\<close>

datatype error = TypeError

definition constructor :: "jsnum \<Rightarrow> Settings \<Rightarrow> Controller" where
  "constructor elementPlaybackRate settings0 =
     \<lparr>playbackRate = elementPlaybackRate, settings = settings0,
      initPromise = Undefined, nodes = None\<rparr>"

definition getSilenceDetectorNodeDurationThreshold :: "jsnum \<Rightarrow> jsnum \<Rightarrow> jsnum" where
  "getSilenceDetectorNodeDurationThreshold margin sounded = getRealtimeMargin margin sounded"

text \<open>
  \<open>_setStateAccordingToSettings(newSettings, oldSettings = null)\<close>. The playback rate is
  written first; the three nodes are read after that, which throws before \<open>init\<close> has
  created them. The stretcher's delay is computed from \<open>this.settings\<close>.
\<close>

definition setStateAccordingToSettings ::
    "Settings \<Rightarrow> Settings option \<Rightarrow> Controller \<Rightarrow> error + Controller" where
  "setStateAccordingToSettings newSettings oldSettings c =
     (let c1 =
        (case oldSettings of
           None \<Rightarrow> c\<lparr>playbackRate := settings c soundedSpeed\<rparr>
         | Some old \<Rightarrow>
             (case List.find (\<lambda>speedSettingName. strict_eq (playbackRate c) (old speedSettingName))
                     [silenceSpeed, soundedSpeed] of
                None \<Rightarrow> c
              | Some currSpeedName \<Rightarrow> c\<lparr>playbackRate := newSettings currSpeedName\<rparr>))
      in case nodes c1 of
           None \<Rightarrow> Inl TypeError
         | Some n \<Rightarrow>
             Inr (c1\<lparr>nodes := Some (n\<lparr>
               volumeThresholdParam := newSettings volumeThreshold,
               durationThresholdParam :=
                 getSilenceDetectorNodeDurationThreshold
                   (newSettings marginBefore) (newSettings soundedSpeed),
               lookaheadDelayTime :=
                 getNewLookaheadDelay (newSettings marginBefore)
                   (newSettings soundedSpeed) (newSettings silenceSpeed),
               stretcherCalls := stretcherCalls n @
                 [SetDelay (getStretcherSoundedDelay (settings c1 marginBefore)
                    (settings c1 soundedSpeed) (settings c1 silenceSpeed))]\<rparr>)\<rparr>))"

text \<open>
  \<open>updateSettings(newChangedSettings)\<close>: \<open>this.settings\<close> is replaced last, and only when
  \<open>_setStateAccordingToSettings\<close> has not thrown.
\<close>

definition updateSettings :: "PartialSettings \<Rightarrow> Controller \<Rightarrow> error + Controller" where
  "updateSettings newChangedSettings c =
     (let oldSettings = settings c;
          newSettings = spread (settings c) newChangedSettings
      in case setStateAccordingToSettings newSettings (Some oldSettings) c of
           Inl e \<Rightarrow> Inl e
         | Inr c1 \<Rightarrow> Inr (c1\<lparr>settings := newSettings\<rparr>))"


text \<open>
  Modelled from the spec: the controller imports \<open>getTotalDelay\<close> and
  \<open>getMomentOutputTime\<close> from its helpers module, and the sources hold that module's
  functions under other names. They are taken to be the total delay of the lookahead and
  the stretcher (\<open>getDelayFromInputToStretcherOutput\<close>) and the specification's time mapper
  (\<open>getStretcherDelayForInputMoment\<close>).
\<close>

definition getTotalDelay :: "jsnum \<Rightarrow> jsnum \<Rightarrow> jsnum" where
  "getTotalDelay lookaheadNodeDelay stretcherNodeDelay =
     getDelayFromInputToStretcherOutput lookaheadNodeDelay stretcherNodeDelay"

definition getMomentOutputTime :: "jsnum \<Rightarrow> jsnum \<Rightarrow> StretchInfo \<Rightarrow> jsnum" where
  "getMomentOutputTime momentTime lookaheadDelay lastSchedule =
     getStretcherDelayForInputMoment momentTime lookaheadDelay lastSchedule"

text \<open>The data of a message of the silence detector: \<open>{ time, type }\<close>.\<close>

record MessageData =
  time :: jsnum
  type :: string

text \<open>The \<open>silenceEnd\<close> branch of \<open>_silenceDetectorNode.port.onmessage\<close>.\<close>

definition onSilenceEnd :: "jsnum \<Rightarrow> Controller \<Rightarrow> error + Controller" where
  "onSilenceEnd eventTime c0 =
     (let c = c0\<lparr>playbackRate := settings c0 soundedSpeed\<rparr> in
      case nodes c of
        None \<Rightarrow> Inl TypeError
      | Some n \<Rightarrow>
      (case lastScheduledStretcherDelayReset n of
        None \<Rightarrow> Inl TypeError
      | Some lastSchedule \<Rightarrow>
      (let lastSilenceSpeedLastsForRealtime = eventTime - newSpeedStartInputTime lastSchedule;
           lastSilenceSpeedLastsForVideoTime =
             lastSilenceSpeedLastsForRealtime * settings c silenceSpeed;
           marginBeforePartAtSilenceSpeedVideoTimeDuration =
             Math_min lastSilenceSpeedLastsForVideoTime (settings c marginBefore);
           marginBeforePartAlreadyAtSoundedSpeedVideoTimeDuration =
             settings c marginBefore - marginBeforePartAtSilenceSpeedVideoTimeDuration;
           marginBeforePartAtSilenceSpeedRealTimeDuration =
             marginBeforePartAtSilenceSpeedVideoTimeDuration / settings c silenceSpeed;
           marginBeforePartAlreadyAtSoundedSpeedRealTimeDuration =
             marginBeforePartAlreadyAtSoundedSpeedVideoTimeDuration / settings c soundedSpeed;
           marginBeforeStartInputTime =
             eventTime
               - marginBeforePartAtSilenceSpeedRealTimeDuration
               - marginBeforePartAlreadyAtSoundedSpeedRealTimeDuration;
           marginBeforeStartOutputTime =
             getMomentOutputTime marginBeforeStartInputTime (lookaheadDelayTime n) lastSchedule;
           marginBeforeStartOutputTimeTotalDelay =
             marginBeforeStartOutputTime - marginBeforeStartInputTime;
           marginBeforeStartOutputTimeStretcherDelay =
             marginBeforeStartOutputTimeTotalDelay - lookaheadDelayTime n;
           interrupt =
             (if marginBeforeStartOutputTime < endTime lastSchedule
              then [InterruptLastScheduledStretch
                      marginBeforeStartOutputTimeStretcherDelay marginBeforeStartOutputTime]
              else []);
           marginBeforePartAtSilenceSpeedStartOutputTime =
             marginBeforeStartOutputTime + marginBeforePartAlreadyAtSoundedSpeedRealTimeDuration;
           stretcherDelayIncrease =
             getStretcherDelayChange marginBeforePartAtSilenceSpeedRealTimeDuration
               (settings c silenceSpeed) (settings c soundedSpeed);
           finalStretcherDelay = marginBeforeStartOutputTimeStretcherDelay + stretcherDelayIncrease
       in Inr (c\<lparr>nodes := Some (n\<lparr>stretcherCalls := stretcherCalls n @ interrupt @
            [Stretch marginBeforeStartOutputTimeStretcherDelay finalStretcherDelay
               marginBeforePartAtSilenceSpeedStartOutputTime
               (eventTime + getTotalDelay (lookaheadDelayTime n) finalStretcherDelay)]\<rparr>)\<rparr>))))"

text \<open>The other branch, taken by a \<open>silenceStart\<close> message.\<close>

definition onSilenceStart :: "jsnum \<Rightarrow> Controller \<Rightarrow> error + Controller" where
  "onSilenceStart eventTime c0 =
     (let c = c0\<lparr>playbackRate := settings c0 silenceSpeed\<rparr> in
      case nodes c of
        None \<Rightarrow> Inl TypeError
      | Some n \<Rightarrow>
      (let oldRealtimeMargin =
             getRealtimeMargin (settings c marginBefore) (settings c soundedSpeed);
           stretcherDelayStartValue =
             getStretcherSoundedDelay (settings c marginBefore)
               (settings c soundedSpeed) (settings c silenceSpeed);
           startIn =
             getTotalDelay (lookaheadDelayTime n) stretcherDelayStartValue - oldRealtimeMargin;
           speedUpBy = settings c silenceSpeed / settings c soundedSpeed;
           originalRealtimeSpeed = Fin 1;
           delayDecreaseSpeed = speedUpBy - originalRealtimeSpeed;
           snippetNewDuration = stretcherDelayStartValue / delayDecreaseSpeed;
           startTime = eventTime + startIn;
           endTime = startTime + snippetNewDuration
       in Inr (c\<lparr>nodes := Some (n\<lparr>
            stretcherCalls := stretcherCalls n @
              [Stretch stretcherDelayStartValue (Fin 0) startTime endTime],
            lastScheduledStretcherDelayReset := Some
              \<lparr>newSpeedStartInputTime = eventTime,
               startTime = startTime,
               startValue = stretcherDelayStartValue,
               endTime = endTime,
               endValue = Fin 0\<rparr>\<rparr>)\<rparr>)))"

definition onmessage :: "MessageData \<Rightarrow> Controller \<Rightarrow> error + Controller" where
  "onmessage msg c =
     (let eventTime = time msg; silenceStartOrEnd = type msg
      in if silenceStartOrEnd = ''silenceEnd''
         then onSilenceEnd eventTime c
         else onSilenceStart eventTime c)"

text \<open>
  \<open>init\<close> in two steps, since it awaits the loading of the worklet modules: the part
  before the first \<open>await\<close>, and the part after the last one, which runs to its end without
  giving way. The default of the detector's \<open>volumeThreshold\<close> parameter belongs to the
  worklet, so it is an argument; a fresh delay node has the delay 0.
\<close>

definition init_start :: "Controller \<Rightarrow> Controller" where
  "init_start c = c\<lparr>initPromise := Pending, playbackRate := settings c soundedSpeed\<rparr>"

definition init_finish :: "jsnum \<Rightarrow> Controller \<Rightarrow> error + Controller" where
  "init_finish volumeThresholdDefault c =
     (let c1 = c\<lparr>nodes := Some
            \<lparr>volumeThresholdParam = volumeThresholdDefault,
             durationThresholdParam =
               getSilenceDetectorNodeDurationThreshold
                 (settings c marginBefore) (settings c soundedSpeed),
             lookaheadDelayTime = Fin 0,
             stretcherCalls = [],
             portOpen = True,
             lastScheduledStretcherDelayReset = None\<rparr>\<rparr>
      in case setStateAccordingToSettings (settings c1) None c1 of
           Inl e \<Rightarrow> Inl e
         | Inr c2 \<Rightarrow> Inr (c2\<lparr>initPromise := Resolved\<rparr>))"

text \<open>
  \<open>destroy\<close> awaits \<open>this._initPromise\<close> first. While that promise is pending nothing
  of \<open>destroy\<close> has run: the result is \<open>None\<close>. Otherwise its body runs.
\<close>

definition destroy :: "Controller \<Rightarrow> (error + Controller) option" where
  "destroy c =
     (case initPromise c of
        Pending \<Rightarrow> None
      | _ \<Rightarrow> Some
          (case nodes c of
             None \<Rightarrow> Inl TypeError
           | Some n \<Rightarrow>
               Inr (c\<lparr>nodes := Some (n\<lparr>portOpen := False,
                                        stretcherCalls := stretcherCalls n @ [Destroy]\<rparr>),
                      playbackRate := Fin 1\<rparr>)))"


section \<open>Arithmetic of finite numbers\<close>

lemma Fin_minus [simp]: "Fin a - Fin b = Fin (a - b)"
  by (simp add: minus_jsnum_def)

lemma jsnum_add_assoc: "(x + y) + z = x + (y + (z::jsnum))"
  by (cases x; cases y; cases z) simp_all

section \<open>The time mapper\<close>

text \<open>
  Claim C1. For every moment, lookahead delay and last schedule (so also for those that meet
  the time mapper's precondition), \<open>getStretcherDelayForInputMoment\<close> returns the moment
  plus the lookahead delay plus the schedule's end value when the moment plus the total end
  delay is at or after the schedule's end time; otherwise it returns the schedule's start
  time plus the moment's offset from the start under the start value, divided by the
  speed-change multiplier \<open>((endTime - startTime) + (startValue - endValue)) /
  (endTime - startTime)\<close>.
\<close>

theorem getStretcherDelayForInputMoment_two_cases:
  "getStretcherDelayForInputMoment momentTime lookaheadDelay s =
     (if momentTime + (lookaheadDelay + endValue s) \<ge> endTime s
      then momentTime + lookaheadDelay + endValue s
      else startTime s +
        ((momentTime + lookaheadDelay + startValue s) - startTime s)
          / (((endTime s - startTime s) + (startValue s - endValue s))
               / (endTime s - startTime s)))"
  by (simp add: getStretcherDelayForInputMoment_def getDelayFromInputToStretcherOutput_def
      getStretchSpeedChangeMultiplier_def Let_def jsnum_add_assoc)

section \<open>The clamp away from the normal speed\<close>

text \<open>
  Claim C4, at the speed 1.001. The band runs from 0.998 to 1.002, the speed is strictly
  inside it and nearer to the upper edge (its distance to 1.002 is smaller than its distance
  to 0.998), and \<open>transformSpeed\<close> returns the lower edge, the farther one.
\<close>

theorem transformSpeed_returns_farther_edge:
  "biggestNonNormalBelow1 = Fin 0.998 \<and> smallestNonNormalAbove1 = Fin 1.002
   \<and> smallestNonNormalAbove1 - Fin 1.001 < Fin 1.001 - biggestNonNormalBelow1
   \<and> transformSpeed (Fin 1.001) = biggestNonNormalBelow1"
  by (simp add: transformSpeed_def biggestNonNormalBelow1_def smallestNonNormalAbove1_def)

text \<open>
  Claim C9. \<open>transformSpeed\<close> is idempotent: applying it to its own result changes
  nothing, and its result is never strictly inside the band around 1.
\<close>

theorem transformSpeed_idempotent:
  "transformSpeed (transformSpeed speed) = transformSpeed speed
   \<and> \<not> (biggestNonNormalBelow1 < transformSpeed speed
          \<and> transformSpeed speed < smallestNonNormalAbove1)"
  by (cases speed)
    (auto simp: transformSpeed_def biggestNonNormalBelow1_def smallestNonNormalAbove1_def)

section \<open>The controller after \<open>init\<close>\<close>

lemmas helper_defs = getRealtimeMargin_def getNewLookaheadDelay_def
  getDelayFromInputToStretcherOutput_def getNewSnippetDuration_def getStretcherDelayChange_def
  getStretcherSoundedDelay_def getTotalDelay_def getSilenceDetectorNodeDurationThreshold_def
  getMomentOutputTime_def getStretcherDelayForInputMoment_def getStretchSpeedChangeMultiplier_def

lemma init_result:
  "init_finish v (init_start (constructor r s)) =
     Inr \<lparr>playbackRate = s soundedSpeed, settings = s, initPromise = Resolved,
          nodes = Some
            \<lparr>volumeThresholdParam = s volumeThreshold,
             durationThresholdParam = getRealtimeMargin (s marginBefore) (s soundedSpeed),
             lookaheadDelayTime =
               getNewLookaheadDelay (s marginBefore) (s soundedSpeed) (s silenceSpeed),
             stretcherCalls =
               [SetDelay (getStretcherSoundedDelay (s marginBefore) (s soundedSpeed)
                  (s silenceSpeed))],
             portOpen = True,
             lastScheduledStretcherDelayReset = None\<rparr>\<rparr>"
  by (simp add: init_finish_def init_start_def constructor_def setStateAccordingToSettings_def
      getSilenceDetectorNodeDurationThreshold_def Let_def)

section \<open>The ramp scheduled when silence starts\<close>

text \<open>
  Claim C2. With \<open>soundedSpeed = 1.75\<close>, \<open>silenceSpeed = 4\<close> and \<open>marginBefore = 0.4\<close>
  as exact rationals, \<open>getStretcherSoundedDelay(0.4, 1.75, 4)\<close> is \<open>9/70\<close>, the quotient
  \<open>(9/70) / (4/1.75 - 1)\<close> is \<open>1/10\<close>, and on a \<open>silenceStart\<close> message at any finite
  time, with any finite lookahead delay, the handler switches to the silence speed and
  schedules one ramp from \<open>9/70\<close> down to \<open>0\<close> whose end time is its start time plus
  \<open>1/10\<close>; it records that ramp as the last schedule.
\<close>

theorem silenceStart_ramp_example:
  assumes "nodes c = Some n" and "lookaheadDelayTime n = Fin L"
    and "settings c soundedSpeed = Fin 1.75" and "settings c silenceSpeed = Fin 4"
    and "settings c marginBefore = Fin 0.4"
  shows "getStretcherSoundedDelay (Fin 0.4) (Fin 1.75) (Fin 4) = Fin (9 / 70)
    \<and> Fin (9 / 70) / (Fin 4 / Fin 1.75 - Fin 1) = Fin (1 / 10)
    \<and> onmessage \<lparr>time = Fin t, type = ''silenceStart''\<rparr> c =
        Inr (c\<lparr>playbackRate := Fin 4,
               nodes := Some (n\<lparr>
                 stretcherCalls := stretcherCalls n @
                   [Stretch (Fin (9 / 70)) (Fin 0)
                      (Fin (t + (L + 9 / 70 - 8 / 35)))
                      (Fin (t + (L + 9 / 70 - 8 / 35) + 1 / 10))],
                 lastScheduledStretcherDelayReset := Some
                   \<lparr>newSpeedStartInputTime = Fin t,
                    startTime = Fin (t + (L + 9 / 70 - 8 / 35)),
                    startValue = Fin (9 / 70),
                    endTime = Fin (t + (L + 9 / 70 - 8 / 35) + 1 / 10),
                    endValue = Fin 0\<rparr>\<rparr>)\<rparr>)"
  using assms by (simp add: onmessage_def onSilenceStart_def helper_defs Let_def)

text \<open>
  The controller as \<open>init\<close> leaves it with these settings has the lookahead delay
  \<open>0.4 / 4\<close>; a \<open>silenceStart\<close> at time 10 schedules the ramp from time 10 to time 10.1.
\<close>

theorem silenceStart_ramp_example_witness:
  "\<exists>c n. init_finish (Fin 0) (init_start (constructor (Fin 1)
          (settingsObject (Fin 1.75) (Fin 4) (Fin 0.4) (Fin 0.01) (Fin 0.2)))) = Inr c
     \<and> nodes c = Some n \<and> lookaheadDelayTime n = Fin (1 / 10)
     \<and> (\<exists>c' n'. onmessage \<lparr>time = Fin 10, type = ''silenceStart''\<rparr> c = Inr c'
          \<and> playbackRate c' = Fin 4 \<and> nodes c' = Some n'
          \<and> stretcherCalls n' =
              [SetDelay (Fin (9 / 70)), Stretch (Fin (9 / 70)) (Fin 0) (Fin 10) (Fin (101 / 10))])"
proof -
  let ?s = "settingsObject (Fin 1.75) (Fin 4) (Fin 0.4) (Fin 0.01) (Fin 0.2)"
  obtain c n where c: "init_finish (Fin 0) (init_start (constructor (Fin 1) ?s)) = Inr c"
    and n: "nodes c = Some n" and l: "lookaheadDelayTime n = Fin (1 / 10)"
    and s: "settings c = ?s" and calls: "stretcherCalls n = [SetDelay (Fin (9 / 70))]"
    by (simp add: init_result helper_defs Math_max_def)
  have "settings c soundedSpeed = Fin 1.75" "settings c silenceSpeed = Fin 4"
    "settings c marginBefore = Fin 0.4"
    by (simp_all add: s)
  from silenceStart_ramp_example [OF n l this, of 10] c n l calls
  show ?thesis by simp
qed

section \<open>A margin of zero\<close>

text \<open>
  Claim C3 as stated fails where the two speeds are equal. With \<open>marginBefore = 0\<close> and
  \<open>soundedSpeed = silenceSpeed = 2\<close>, a \<open>silenceStart\<close> at time 10 divides the start value
  0 by \<open>2/2 - 1 = 0\<close>: the duration is \<open>NaN\<close>, and the ramp is scheduled from time 10 to the
  end time \<open>NaN\<close>, which is not its start time.
\<close>

theorem zero_margin_equal_speeds_counterexample:
  "\<exists>c c' n'. init_finish (Fin 0) (init_start (constructor (Fin 1)
          (settingsObject (Fin 2) (Fin 2) (Fin 0) (Fin 0.01) (Fin 0.2)))) = Inr c
     \<and> settings c marginBefore = Fin 0
     \<and> onmessage \<lparr>time = Fin 10, type = ''silenceStart''\<rparr> c = Inr c'
     \<and> nodes c' = Some n'
     \<and> stretcherCalls n' = [SetDelay (Fin 0), Stretch (Fin 0) (Fin 0) (Fin 10) NaN]
     \<and> NaN \<noteq> Fin 10"
  by (simp add: init_result onmessage_def onSilenceStart_def helper_defs Math_max_def Let_def)

text \<open>
  Claim C3, amended. For settings with \<open>marginBefore = 0\<close> and two positive, different
  speeds, a finite lookahead delay, and a \<open>silenceStart\<close> at time \<open>t1\<close> followed by a
  \<open>silenceEnd\<close> at a time \<open>t2\<close> not before it: each handler sets the playback rate to its
  speed, the first schedules the ramp from 0 to 0 that starts and ends at \<open>t1\<close> plus the
  lookahead delay, and the second interrupts nothing and schedules the ramp from 0 to 0
  (a delay increase of 0) that starts and ends at \<open>t2\<close> plus the lookahead delay.
\<close>

theorem zero_margin_no_stretch:
  assumes "nodes c = Some n" and "lookaheadDelayTime n = Fin L"
    and "settings c marginBefore = Fin 0"
    and "settings c soundedSpeed = Fin a" and "settings c silenceSpeed = Fin b"
    and "0 < a" and "0 < b" and "a \<noteq> b" and "t1 \<le> t2"
  shows "\<exists>c1 n1 c2 n2.
      onmessage \<lparr>time = Fin t1, type = ''silenceStart''\<rparr> c = Inr c1
    \<and> playbackRate c1 = Fin b \<and> nodes c1 = Some n1
    \<and> stretcherCalls n1 =
        stretcherCalls n @ [Stretch (Fin 0) (Fin 0) (Fin (t1 + L)) (Fin (t1 + L))]
    \<and> onmessage \<lparr>time = Fin t2, type = ''silenceEnd''\<rparr> c1 = Inr c2
    \<and> playbackRate c2 = Fin a \<and> nodes c2 = Some n2
    \<and> stretcherCalls n2 =
        stretcherCalls n1 @ [Stretch (Fin 0) (Fin 0) (Fin (t2 + L)) (Fin (t2 + L))]"
proof -
  have "0 \<le> (t2 - t1) * b"
    using assms by simp
  then have min0: "Math_min (Fin ((t2 - t1) * b)) (Fin 0) = Fin 0"
    by (auto simp: Math_min_def)
  show ?thesis
    using assms min0
    by (simp add: onmessage_def onSilenceStart_def onSilenceEnd_def helper_defs Let_def)
qed

text \<open>
  After \<open>init\<close> with \<open>marginBefore = 0\<close> and the speeds 1.5 and 3 the lookahead delay is 0;
  silence from time 10 to time 12 schedules the two flat, empty ramps at 10 and at 12.
\<close>

theorem zero_margin_no_stretch_witness:
  "\<exists>c c1 n1 c2 n2. init_finish (Fin 0) (init_start (constructor (Fin 1)
          (settingsObject (Fin 1.5) (Fin 3) (Fin 0) (Fin 0.01) (Fin 0.2)))) = Inr c
     \<and> onmessage \<lparr>time = Fin 10, type = ''silenceStart''\<rparr> c = Inr c1
     \<and> playbackRate c1 = Fin 3 \<and> nodes c1 = Some n1
     \<and> stretcherCalls n1 = [SetDelay (Fin 0), Stretch (Fin 0) (Fin 0) (Fin 10) (Fin 10)]
     \<and> onmessage \<lparr>time = Fin 12, type = ''silenceEnd''\<rparr> c1 = Inr c2
     \<and> playbackRate c2 = Fin 1.5 \<and> nodes c2 = Some n2
     \<and> stretcherCalls n2 =
         [SetDelay (Fin 0), Stretch (Fin 0) (Fin 0) (Fin 10) (Fin 10),
          Stretch (Fin 0) (Fin 0) (Fin 12) (Fin 12)]"
proof -
  let ?s = "settingsObject (Fin 1.5) (Fin 3) (Fin 0) (Fin 0.01) (Fin 0.2)"
  obtain c n where c: "init_finish (Fin 0) (init_start (constructor (Fin 1) ?s)) = Inr c"
    and n: "nodes c = Some n" and l: "lookaheadDelayTime n = Fin 0"
    and s: "settings c = ?s" and calls: "stretcherCalls n = [SetDelay (Fin 0)]"
    by (simp add: init_result helper_defs Math_max_def)
  have m: "settings c marginBefore = Fin 0"
    and a: "settings c soundedSpeed = Fin 1.5" and b: "settings c silenceSpeed = Fin 3"
    by (simp_all add: s)
  have "(0::rat) < 1.5" "(0::rat) < 3" "(1.5::rat) \<noteq> 3" "(10::rat) \<le> 12"
    by simp_all
  from zero_margin_no_stretch [OF n l m a b this] c calls
  show ?thesis by auto
qed

section \<open>Applying settings\<close>

text \<open>
  Claim C5 as stated fails: the detector's \<open>durationThreshold\<close> parameter is not a function
  of \<open>settings.durationThreshold\<close> and the speeds. Two settings objects with the same
  \<open>durationThreshold\<close> 0.2 and the same speeds 1.75 and 4, one with \<open>marginBefore = 0.4\<close>
  and one with \<open>marginBefore = 0.2\<close>, give the parameter the different values \<open>8/35\<close> and
  \<open>4/35\<close>.
\<close>

theorem durationThreshold_param_counterexample:
  "\<exists>cA nA cB nB.
       init_finish (Fin 0) (init_start (constructor (Fin 1)
          (settingsObject (Fin 1.75) (Fin 4) (Fin 0.4) (Fin 0.01) (Fin 0.2)))) = Inr cA
     \<and> init_finish (Fin 0) (init_start (constructor (Fin 1)
          (settingsObject (Fin 1.75) (Fin 4) (Fin 0.2) (Fin 0.01) (Fin 0.2)))) = Inr cB
     \<and> settings cA durationThreshold = settings cB durationThreshold
     \<and> settings cA soundedSpeed = settings cB soundedSpeed
     \<and> settings cA silenceSpeed = settings cB silenceSpeed
     \<and> nodes cA = Some nA \<and> nodes cB = Some nB
     \<and> durationThresholdParam nA = Fin (8 / 35)
     \<and> durationThresholdParam nB = Fin (4 / 35)
     \<and> durationThresholdParam nA \<noteq> durationThresholdParam nB"
  by (simp add: init_result helper_defs)

text \<open>
  Claim C5, amended. Whenever settings are applied to a controller that \<open>init\<close> has set up,
  on a change as on the first call, the detector's \<open>durationThreshold\<close> parameter becomes
  the new \<open>marginBefore\<close> converted from content time to real time at the new sounded
  speed: \<open>marginBefore / soundedSpeed\<close>.
\<close>

theorem durationThreshold_param_is_realtime_margin:
  assumes "nodes c = Some n"
  shows "\<exists>c' n'. setStateAccordingToSettings newSettings oldSettings c = Inr c'
    \<and> nodes c' = Some n'
    \<and> durationThresholdParam n' = newSettings marginBefore / newSettings soundedSpeed"
  using assms
  by (auto simp: setStateAccordingToSettings_def helper_defs Let_def split: option.splits)

theorem durationThreshold_param_is_realtime_margin_witness:
  "\<exists>c c' n'. init_finish (Fin 0) (init_start (constructor (Fin 1)
          (settingsObject (Fin 1.75) (Fin 4) (Fin 0.4) (Fin 0.01) (Fin 0.2)))) = Inr c
     \<and> setStateAccordingToSettings (settingsObject (Fin 2) (Fin 4) (Fin 0.5) (Fin 0.01) (Fin 0.2))
          (Some (settings c)) c = Inr c'
     \<and> nodes c' = Some n' \<and> durationThresholdParam n' = Fin (1 / 4)"
proof -
  let ?s = "settingsObject (Fin 1.75) (Fin 4) (Fin 0.4) (Fin 0.01) (Fin 0.2)"
  obtain c n where c: "init_finish (Fin 0) (init_start (constructor (Fin 1) ?s)) = Inr c"
    and n: "nodes c = Some n"
    by (simp add: init_result)
  from durationThreshold_param_is_realtime_margin [OF n,
      of "settingsObject (Fin 2) (Fin 4) (Fin 0.5) (Fin 0.01) (Fin 0.2)" "Some (settings c)"] c
  show ?thesis by auto
qed

text \<open>
  Claim C6, at a change of \<open>marginBefore\<close> from 0.4 to 0 under the speeds 1.75 and 4.
  \<open>updateSettings\<close> sets the lookahead delay from the new settings, to 0, but the delay it
  gives the stretcher is again \<open>9/70\<close>, computed from the settings before the change;
  \<open>getStretcherSoundedDelay\<close> of the new settings is 0.
\<close>

theorem updateSettings_stretcher_delay_from_old_settings:
  "\<exists>c c' n'. init_finish (Fin 0) (init_start (constructor (Fin 1)
          (settingsObject (Fin 1.75) (Fin 4) (Fin 0.4) (Fin 0.01) (Fin 0.2)))) = Inr c
     \<and> updateSettings [marginBefore \<mapsto> Fin 0] c = Inr c'
     \<and> settings c' marginBefore = Fin 0
     \<and> settings c' soundedSpeed = Fin 1.75 \<and> settings c' silenceSpeed = Fin 4
     \<and> nodes c' = Some n'
     \<and> lookaheadDelayTime n' = Fin 0
     \<and> stretcherCalls n' = [SetDelay (Fin (9 / 70)), SetDelay (Fin (9 / 70))]
     \<and> getStretcherSoundedDelay (Fin 0) (Fin 1.75) (Fin 4) = Fin 0"
  by (simp add: init_result updateSettings_def setStateAccordingToSettings_def spread_def
      helper_defs Math_max_def Let_def)

text \<open>
  Claim C7 as stated fails where the two old speeds are equal. After \<open>init\<close> with both
  speeds 2 the playback rate is 2, which is the old sounded speed; applying new settings with
  the sounded speed 1.5 and the silence speed 3 sets the rate to 3, the new silence speed.
\<close>

theorem speed_selection_equal_old_speeds_counterexample:
  "\<exists>c c'. init_finish (Fin 0) (init_start (constructor (Fin 1)
          (settingsObject (Fin 2) (Fin 2) (Fin 0.4) (Fin 0.01) (Fin 0.2)))) = Inr c
     \<and> strict_eq (playbackRate c) (settings c soundedSpeed)
     \<and> setStateAccordingToSettings (settingsObject (Fin 1.5) (Fin 3) (Fin 0.4) (Fin 0.01) (Fin 0.2))
          (Some (settings c)) c = Inr c'
     \<and> playbackRate c' = Fin 3
     \<and> playbackRate c' \<noteq> Fin 1.5"
  by (simp add: init_result setStateAccordingToSettings_def strict_eq_def Let_def)

text \<open>
  Claim C7, amended. When settings \<open>new\<close> are applied with the old settings \<open>old\<close> to a
  controller that \<open>init\<close> has set up: if the playback rate equals (\<open>===\<close>) the old silence
  speed it becomes the new silence speed; if it does not, and equals the old sounded speed,
  it becomes the new sounded speed; if it equals neither it is left as it is.
\<close>

theorem speed_selection_keeps_logical_speed:
  assumes "nodes c = Some n"
  shows "\<exists>c'. setStateAccordingToSettings newSettings (Some oldSettings) c = Inr c'
    \<and> playbackRate c' =
        (if strict_eq (playbackRate c) (oldSettings silenceSpeed)
         then newSettings silenceSpeed
         else if strict_eq (playbackRate c) (oldSettings soundedSpeed)
         then newSettings soundedSpeed
         else playbackRate c)"
  using assms
  by (auto simp: setStateAccordingToSettings_def Let_def split: option.splits)

text \<open>
  After \<open>init\<close> with the speeds 1.75 and 4 and a \<open>silenceStart\<close> the rate is 4, the silence
  speed; applying settings with the speeds 2 and 5 makes it 5.
\<close>

theorem speed_selection_keeps_logical_speed_witness:
  "\<exists>c c1 c'. init_finish (Fin 0) (init_start (constructor (Fin 1)
          (settingsObject (Fin 1.75) (Fin 4) (Fin 0.4) (Fin 0.01) (Fin 0.2)))) = Inr c
     \<and> onmessage \<lparr>time = Fin 10, type = ''silenceStart''\<rparr> c = Inr c1
     \<and> playbackRate c1 = Fin 4
     \<and> setStateAccordingToSettings (settingsObject (Fin 2) (Fin 5) (Fin 0.4) (Fin 0.01) (Fin 0.2))
          (Some (settings c1)) c1 = Inr c'
     \<and> playbackRate c' = Fin 5"
proof -
  let ?s = "settingsObject (Fin 1.75) (Fin 4) (Fin 0.4) (Fin 0.01) (Fin 0.2)"
  obtain c c1 n1 where c: "init_finish (Fin 0) (init_start (constructor (Fin 1) ?s)) = Inr c"
    and c1: "onmessage \<lparr>time = Fin 10, type = ''silenceStart''\<rparr> c = Inr c1"
    and n1: "nodes c1 = Some n1" and r: "playbackRate c1 = Fin 4" and s: "settings c1 = ?s"
    by (simp add: init_result onmessage_def onSilenceStart_def Let_def)
  from speed_selection_keeps_logical_speed [OF n1,
      of "settingsObject (Fin 2) (Fin 5) (Fin 0.4) (Fin 0.01) (Fin 0.2)" "settings c1"] c c1 r s
  show ?thesis by (auto simp: strict_eq_def)
qed

section \<open>Teardown\<close>

text \<open>
  Claim C8 as stated fails: the rate before the engine is not restored. An element that
  played at the rate 2 before the controller was made plays at the rate 1 after \<open>init\<close> and
  \<open>destroy\<close>.
\<close>

theorem destroy_restore_counterexample:
  "\<exists>c c'. playbackRate (constructor (Fin 2)
          (settingsObject (Fin 1.75) (Fin 4) (Fin 0.4) (Fin 0.01) (Fin 0.2))) = Fin 2
     \<and> init_finish (Fin 0) (init_start (constructor (Fin 2)
          (settingsObject (Fin 1.75) (Fin 4) (Fin 0.4) (Fin 0.01) (Fin 0.2)))) = Inr c
     \<and> destroy c = Some (Inr c')
     \<and> playbackRate c' = Fin 1
     \<and> playbackRate c' \<noteq> Fin 2"
  by (simp add: init_result destroy_def) (simp add: constructor_def)

text \<open>
  Claim C8, amended. For every engine instance: while its \<open>init\<close> is in flight
  \<open>destroy\<close> does nothing yet (it awaits the promise); when the promise is not pending and
  \<open>init\<close> has created the nodes, \<open>destroy\<close> runs and sets the playback rate to 1,
  whatever the rate, the settings and the schedules of the instance are.
\<close>

theorem destroy_waits_and_sets_rate_to_1:
  "(initPromise c = Pending \<longrightarrow> destroy c = None)
   \<and> (initPromise c \<noteq> Pending \<longrightarrow> nodes c = Some n \<longrightarrow>
        (\<exists>c'. destroy c = Some (Inr c') \<and> playbackRate c' = Fin 1))"
  by (cases "initPromise c") (simp_all add: destroy_def)

text \<open>
  For an element that played at the rate 2: while \<open>init\<close> is in flight \<open>destroy\<close> waits;
  after \<open>init\<close> and a \<open>silenceStart\<close> the rate is 4, and \<open>destroy\<close> makes it 1.
\<close>

theorem destroy_waits_and_sets_rate_to_1_witness:
  "destroy (init_start (constructor (Fin 2)
       (settingsObject (Fin 1.75) (Fin 4) (Fin 0.4) (Fin 0.01) (Fin 0.2)))) = None
   \<and> (\<exists>c c1 c'. init_finish (Fin 0) (init_start (constructor (Fin 2)
          (settingsObject (Fin 1.75) (Fin 4) (Fin 0.4) (Fin 0.01) (Fin 0.2)))) = Inr c
        \<and> onmessage \<lparr>time = Fin 10, type = ''silenceStart''\<rparr> c = Inr c1
        \<and> playbackRate c1 = Fin 4
        \<and> destroy c1 = Some (Inr c') \<and> playbackRate c' = Fin 1)"
proof -
  let ?s = "settingsObject (Fin 1.75) (Fin 4) (Fin 0.4) (Fin 0.01) (Fin 0.2)"
  have p: "initPromise (init_start (constructor (Fin 2) ?s)) = Pending"
    by (simp add: init_start_def)
  obtain c c1 n1 where c: "init_finish (Fin 0) (init_start (constructor (Fin 2) ?s)) = Inr c"
    and c1: "onmessage \<lparr>time = Fin 10, type = ''silenceStart''\<rparr> c = Inr c1"
    and n1: "nodes c1 = Some n1" and r: "playbackRate c1 = Fin 4"
    and q: "initPromise c1 \<noteq> Pending"
    by (simp add: init_result onmessage_def onSilenceStart_def Let_def)
  from destroy_waits_and_sets_rate_to_1 [of "init_start (constructor (Fin 2) ?s)"] p
  have "destroy (init_start (constructor (Fin 2) ?s)) = None"
    by simp
  moreover from destroy_waits_and_sets_rate_to_1 [of c1 n1] q n1
  have "\<exists>c'. destroy c1 = Some (Inr c') \<and> playbackRate c' = Fin 1"
    by simp
  ultimately show ?thesis
    using c c1 r by auto
qed

section \<open>Updating settings\<close>

text \<open>
  Claim C10, on a controller that has not been initialised. The source says of
  \<open>updateSettings\<close> that it can be called before the instance has been initialized. On a
  controller as the constructor leaves it, and on one whose \<open>init\<close> is in flight,
  \<open>updateSettings({silenceSpeed: 5})\<close> throws while it updates the derived state, since the
  nodes do not exist yet; the assignment of the merged object to \<open>this.settings\<close> is
  never reached.
\<close>

theorem updateSettings_before_init_throws:
  "nodes (constructor (Fin 1)
       (settingsObject (Fin 1.75) (Fin 4) (Fin 0.4) (Fin 0.01) (Fin 0.2))) = None
   \<and> updateSettings [silenceSpeed \<mapsto> Fin 5] (constructor (Fin 1)
       (settingsObject (Fin 1.75) (Fin 4) (Fin 0.4) (Fin 0.01) (Fin 0.2))) = Inl TypeError
   \<and> updateSettings [silenceSpeed \<mapsto> Fin 5] (init_start (constructor (Fin 1)
       (settingsObject (Fin 1.75) (Fin 4) (Fin 0.4) (Fin 0.01) (Fin 0.2)))) = Inl TypeError"
  by (simp add: updateSettings_def setStateAccordingToSettings_def constructor_def
      init_start_def Let_def split: option.splits)

text \<open>
  On a controller that \<open>init\<close> has set up, \<open>updateSettings\<close> returns, and in the settings
  of the result every key that the argument lacks keeps its value and every key that the
  argument has takes the argument's value. The derived state is updated first, while the
  instance still holds the old settings, and the merged object then replaces them in one
  step.
\<close>

lemma updateSettings_frame:
  assumes "nodes c = Some n"
  shows "\<exists>c1 c'. setStateAccordingToSettings (spread (settings c) newChangedSettings)
                    (Some (settings c)) c = Inr c1
    \<and> settings c1 = settings c
    \<and> updateSettings newChangedSettings c = Inr c'
    \<and> c' = c1\<lparr>settings := spread (settings c) newChangedSettings\<rparr>
    \<and> (\<forall>key. settings c' key =
          (case newChangedSettings key of None \<Rightarrow> settings c key | Some v \<Rightarrow> v))"
  using assms
  by (auto simp: updateSettings_def setStateAccordingToSettings_def spread_def Let_def
      split: option.splits)

lemma updateSettings_frame_example:
  "\<exists>c c'. init_finish (Fin 0) (init_start (constructor (Fin 1)
          (settingsObject (Fin 1.75) (Fin 4) (Fin 0.4) (Fin 0.01) (Fin 0.2)))) = Inr c
     \<and> updateSettings [silenceSpeed \<mapsto> Fin 5] c = Inr c'
     \<and> settings c' soundedSpeed = Fin 1.75 \<and> settings c' silenceSpeed = Fin 5
     \<and> settings c' marginBefore = Fin 0.4 \<and> settings c' volumeThreshold = Fin 0.01
     \<and> settings c' durationThreshold = Fin 0.2"
proof -
  let ?s = "settingsObject (Fin 1.75) (Fin 4) (Fin 0.4) (Fin 0.01) (Fin 0.2)"
  obtain c n where c: "init_finish (Fin 0) (init_start (constructor (Fin 1) ?s)) = Inr c"
    and n: "nodes c = Some n" and s: "settings c = ?s"
    by (simp add: init_result)
  from updateSettings_frame [OF n, of "[silenceSpeed \<mapsto> Fin 5]"] c s
  show ?thesis by auto
qed

end
